theory Spec2Isabelle
  imports Complex_Main "HOL-Library.Multiset"
begin

section \<open>Python and numpy values\<close>

text \<open>
  Exceptions are values: every \<open>raise\<close> of the source, and every exception a library
  call of the source can raise on the inputs modelled here, is one constructor.
\<close>

datatype py_error = ValueError | TypeError | KeyError | IndexError | AttributeError
  | AssertionError

text \<open>
  A float64 as numpy computes it, with rounding left out: arithmetic on finite values is
  the arithmetic of the reals, and the IEEE results of a division by zero (which numpy
  returns with a warning, never an exception) are written out.
\<close>

datatype npfloat = Fin real | NaN | PInf | NInf

text \<open>Mean and population standard deviation of a non-empty array.\<close>

definition mean :: "real list \<Rightarrow> real" where
  "mean xs = sum_list xs / real (length xs)"

definition std :: "real list \<Rightarrow> real" where
  "std xs = sqrt (mean (map (\<lambda>x. (x - mean xs)\<^sup>2) xs))"

text \<open>\<open>a.mean()\<close> and \<open>a.std()\<close> (\<open>sqrt(mean(abs(a - a.mean())**2))\<close>): nan on an empty array.\<close>

definition np_mean :: "real list \<Rightarrow> npfloat" where
  "np_mean xs = (if xs = [] then NaN else Fin (mean xs))"

definition np_std :: "real list \<Rightarrow> npfloat" where
  "np_std xs = (if xs = [] then NaN else Fin (std xs))"

text \<open>The quotient of two finite floats.\<close>

definition np_divide :: "real \<Rightarrow> real \<Rightarrow> npfloat" where
  "np_divide x s =
     (if s = 0 then (if x = 0 then NaN else if 0 < x then PInf else NInf)
      else Fin (x / s))"

text \<open>\<open>v >= t\<close> for a float \<open>v\<close> and a finite threshold: every comparison with nan is False.\<close>

fun np_ge :: "npfloat \<Rightarrow> real \<Rightarrow> bool" where
  "np_ge (Fin x) t = (t \<le> x)"
| "np_ge NaN t = False"
| "np_ge PInf t = True"
| "np_ge NInf t = False"


text \<open>\<open>int(x)\<close> of a float truncates towards zero.\<close>

definition py_int :: "real \<Rightarrow> int" where
  "py_int x = (if 0 \<le> x then \<lfloor>x\<rfloor> else \<lceil>x\<rceil>)"

text \<open>\<open>a[mask]\<close>: the entries of \<open>a\<close> at the positions where the boolean mask is True.\<close>

definition mask_select :: "bool list \<Rightarrow> 'a list \<Rightarrow> 'a list" where
  "mask_select msk xs = map snd (filter fst (zip msk xs))"

text \<open>\<open>sum(mask)\<close>: the number of True entries.\<close>

definition count_true :: "bool list \<Rightarrow> nat" where
  "count_true msk = length (filter (\<lambda>b. b) msk)"

text \<open>The keys of a dict built from a sequence of keys: first occurrences, in order.\<close>

definition dict_keys :: "'a list \<Rightarrow> 'a list" where
  "dict_keys ks = rev (remdups (rev ks))"

section \<open>Tables\<close>

text \<open>
  The rank matrix: a DataFrame with the motif identifiers as index, the region keys as
  columns and the ranks as values, row by row.
\<close>

record rank_df =
  df_index :: "string list"
  df_columns :: "string list"
  df_values :: "nat list list"

text \<open>The positions of a label in an axis; pandas selects all of them.\<close>

definition positions :: "'a list \<Rightarrow> 'a \<Rightarrow> nat list" where
  "positions xs x = filter (\<lambda>j. xs ! j = x) [0..<length xs]"

definition take_labels :: "string list \<Rightarrow> 'a list \<Rightarrow> string list \<Rightarrow> 'a list" where
  "take_labels axis xs keys = concat (map (\<lambda>k. map (\<lambda>j. xs ! j) (positions axis k)) keys)"

text \<open>\<open>df[keys]\<close>: column selection by a list of labels; a label that is no column raises.\<close>

definition getitem_columns :: "rank_df \<Rightarrow> string list \<Rightarrow> py_error + rank_df" where
  "getitem_columns df keys =
     (if list_all (\<lambda>k. k \<in> set (df_columns df)) keys
      then Inr \<lparr>df_index = df_index df,
                df_columns = take_labels (df_columns df) (df_columns df) keys,
                df_values = map (\<lambda>row. take_labels (df_columns df) row keys) (df_values df)\<rparr>
      else Inl KeyError)"

text \<open>\<open>df.loc[rows, keys]\<close>: row selection by labels, then column selection.\<close>

definition loc_rows_columns :: "rank_df \<Rightarrow> string list \<Rightarrow> string list \<Rightarrow> py_error + rank_df" where
  "loc_rows_columns df rows keys =
     (if list_all (\<lambda>m. m \<in> set (df_index df)) rows
      then getitem_columns
             \<lparr>df_index = take_labels (df_index df) (df_index df) rows,
              df_columns = df_columns df,
              df_values = take_labels (df_index df) (df_values df) rows\<rparr> keys
      else Inl KeyError)"

text \<open>
  The region mapping: one row per mapped query region, \<open>(Target, Query)\<close>, where Target
  is the key of the query region and Query the key of the database region.
\<close>

type_synonym mapping_table = "(string \<times> string) list"

text \<open>
  \<open>regions_to_db\<close> of the database object: None when the whole database was loaded, one
  table indexed by Target for a single region set, a dict of tables for named region sets.
\<close>

datatype regions_to_db = NoMapping | Single mapping_table | Named "(string \<times> mapping_table) list"

text \<open>\<open>table.loc[labels]\<close> on the table indexed by Target.\<close>

definition loc_targets :: "mapping_table \<Rightarrow> string list \<Rightarrow> mapping_table" where
  "loc_targets t labels = concat (map (\<lambda>l. filter (\<lambda>r. fst r = l) t) labels)"

type_synonym pyranges = "(string \<times> int \<times> int) list"

record cisTargetDatabase =
  db_regions_to_db :: regions_to_db
  db_rankings :: rank_df
  total_regions :: int

section \<open>The analysis object and its collaborators\<close>

text \<open>The signature built from the mapped database regions (a ctxcore Regulon).\<close>

record gene_signature =
  genes :: "string list"
  transcription_factor :: string
  gene2weight :: "string \<Rightarrow> real"

text \<open>
  One row of the wide table handed to \<open>leading_edge4row\<close>: the Enrichment block (NES, AUC,
  GROUP), the Recovery block and the Ranking block of one enriched motif.
\<close>

record feature_row =
  row_MotifID :: string
  row_NES :: npfloat
  row_AUC :: real
  row_GROUP :: string
  row_Recovery :: "real list"
  row_Ranking :: "nat list"

text \<open>A row of \<open>enriched_features\<close> after the columns are renamed (line 394).\<close>

record enriched_row =
  ef_MotifID :: string
  ef_NES :: npfloat
  ef_AUC :: real
  ef_Region_set :: string
  ef_Motif_hits :: "(string \<times> real) list"
  ef_Rank_at_max :: int

text \<open>
  A row of \<open>self.motif_enrichment\<close>: the four columns of line 396, the columns the
  annotation step attaches, and the count column of line 409.
\<close>

record enrichment_row =
  me_MotifID :: string
  me_Region_set :: string
  me_NES :: npfloat
  me_AUC :: real
  me_Rank_at_max :: int
  me_annotation :: "(string \<times> string) list"
  me_Motif_hits :: "nat option"

text \<open>\<open>motif_hits\<close> and \<open>cistromes\<close>: a dict with the two keys, each a dict key \<open>\<rightarrow>\<close> regions.\<close>

record region_dicts =
  Database :: "(string \<times> string list) list"
  Region_set :: "(string \<times> string list) list"

record cisTarget =
  region_set :: pyranges
  name :: string
  auc_threshold :: real
  nes_threshold :: real
  rank_threshold :: real
  motifs_to_use :: "string list option"

text \<open>The attributes \<open>run_ctx\<close> has set when it returns.\<close>

record cisTarget_result =
  regions_to_db :: mapping_table
  motif_enrichment :: "enrichment_row list"
  motif_hits :: region_dicts
  cistromes :: region_dicts

text \<open>
  What \<open>run_ctx\<close> calls and this file does not define: the statistical kernel of ctxcore
  (\<open>calc_aucs\<close>, \<open>recovery\<close>, \<open>leading_edge4row\<close>), the helpers of pycistarget.utils, the
  methods inherited from MotifEnrichmentResult, the iteration order of a Python set
  (\<open>set_iter xs\<close> lists the set of the elements of \<open>xs\<close>) and the row order that
  \<open>sort_values('NES', ascending=False)\<close> returns (as positions into the unsorted rows).
  They are parameters; a call that can raise returns a sum. The AUCs and the recovery
  curves that the kernel returns are taken to be finite.
\<close>

record collaborators =
  set_iter :: "string list \<Rightarrow> string list"
  coord_to_region_names :: "pyranges \<Rightarrow> string list"
  region_sets_to_signature :: "string list \<Rightarrow> string \<Rightarrow> gene_signature"
  calc_aucs :: "rank_df \<Rightarrow> int \<Rightarrow> real list \<Rightarrow> real \<Rightarrow> py_error + real list"
  recovery :: "rank_df \<Rightarrow> int \<Rightarrow> real list \<Rightarrow> int \<Rightarrow> real \<Rightarrow> bool
                \<Rightarrow> py_error + real list list"
  leading_edge4row :: "feature_row \<Rightarrow> real list \<Rightarrow> string list \<Rightarrow> real list
                \<Rightarrow> py_error + ((string \<times> real) list \<times> int)"
  sort_values_desc :: "npfloat list \<Rightarrow> nat list"
  add_motif_annotation :: "enrichment_row list \<Rightarrow> py_error + enrichment_row list"
  get_cistromes :: "enrichment_row list \<Rightarrow> region_dicts \<Rightarrow> py_error + region_dicts"

text \<open>The calls to the kernel and to the inherited methods, with their arguments.\<close>

datatype call =
    Call_calc_aucs rank_df int "real list" real
  | Call_recovery rank_df int "real list" int real bool
  | Call_leading_edge4row feature_row "real list" "string list" "real list"
  | Call_add_motif_annotation "enrichment_row list"
  | Call_get_cistromes "enrichment_row list" region_dicts

text \<open>
  A computation takes the calls made so far and returns them extended, with either the
  exception that stopped it or its value.
\<close>

type_synonym 'a run = "call list \<Rightarrow> call list \<times> (py_error + 'a)"

definition ret :: "'a \<Rightarrow> 'a run" where
  "ret x = (\<lambda>tr. (tr, Inr x))"

definition lift :: "py_error + 'a \<Rightarrow> 'a run" where
  "lift r = (\<lambda>tr. (tr, r))"

definition ext :: "call \<Rightarrow> py_error + 'a \<Rightarrow> 'a run" where
  "ext c r = (\<lambda>tr. (tr @ [c], r))"

definition andthen :: "'a run \<Rightarrow> ('a \<Rightarrow> 'b run) \<Rightarrow> 'b run" where
  "andthen m f = (\<lambda>tr. case m tr of (tr', Inl e) \<Rightarrow> (tr', Inl e) | (tr', Inr x) \<Rightarrow> f x tr')"

section \<open>\<open>cisTarget.run_ctx\<close>\<close>

text \<open>
  Lines 296 to 298: the mapping of this analysis, \<open>regions_to_db[self.name]\<close> of a dict
  (KeyError for a name that is no key), or the rows of the single table at the labels
  \<open>list(set(coord_to_region_names(self.region_set)) & set(regions_to_db['Target']))\<close>.
  A database loaded without region sets has None there, and \<open>None.loc\<close> raises.
\<close>

definition resolve_regions_to_db ::
  "collaborators \<Rightarrow> cisTarget \<Rightarrow> cisTargetDatabase \<Rightarrow> py_error + mapping_table" where
  "resolve_regions_to_db env self ctx_db =
     (case db_regions_to_db ctx_db of
        Named d \<Rightarrow> (case map_of d (name self) of None \<Rightarrow> Inl KeyError | Some t \<Rightarrow> Inr t)
      | Single t \<Rightarrow>
          Inr (loc_targets t
                 (set_iter env (filter (\<lambda>x. x \<in> set (map fst t))
                                   (coord_to_region_names env (region_set self)))))
      | NoMapping \<Rightarrow> Inl AttributeError)"

text \<open>
  Lines 309 to 317: the rank matrix restricted to the regions of the signature, and to
  \<open>set(self.motifs_to_use) & set(db_rankings.index.values)\<close> when motifs are given; the
  set is the row indexer of \<open>.loc\<close>, taken in its iteration order.
\<close>

definition subset_rankings ::
  "collaborators \<Rightarrow> cisTarget \<Rightarrow> cisTargetDatabase \<Rightarrow> string list \<Rightarrow> py_error + rank_df" where
  "subset_rankings env self ctx_db regions =
     (case motifs_to_use self of
        Some ms \<Rightarrow>
          loc_rows_columns (db_rankings ctx_db)
            (set_iter env (filter (\<lambda>m. m \<in> set (df_index (db_rankings ctx_db))) ms)) regions
      | None \<Rightarrow> getitem_columns (db_rankings ctx_db) regions)"

text \<open>Line 325: \<open>ness = (aucs - aucs.mean()) / aucs.std()\<close>, elementwise.\<close>

definition ness_of :: "real list \<Rightarrow> npfloat list" where
  "ness_of aucs =
     (case (np_mean aucs, np_std aucs) of
        (Fin m, Fin s) \<Rightarrow> map (\<lambda>a. np_divide (a - m) s) aucs
      | _ \<Rightarrow> map (\<lambda>a. NaN) aucs)"

text \<open>Line 328: \<open>enriched_features_idx = ness >= self.nes_threshold\<close>.\<close>

definition enriched_idx :: "npfloat list \<Rightarrow> real \<Rightarrow> bool list" where
  "enriched_idx ness thr = map (\<lambda>v. np_ge v thr) ness"

text \<open>Lines 333 to 345: the attributes set when no feature is enriched.\<close>

definition no_enrichment :: "mapping_table \<Rightarrow> cisTarget_result" where
  "no_enrichment r2db =
     \<lparr>regions_to_db = r2db, motif_enrichment = [],
      motif_hits = \<lparr>Database = [], Region_set = []\<rparr>,
      cistromes = \<lparr>Database = [], Region_set = []\<rparr>\<rparr>"

text \<open>
  Lines 349 to 352 and 376 to 387: the wide table, one row per enriched feature. A boolean
  mask indexes an array of its own length only (IndexError otherwise); the MultiIndex of a
  block cannot be built from an empty list of columns (TypeError); the data of a block
  must have as many columns as the block (ValueError).
\<close>

definition wide_rows ::
  "string list \<Rightarrow> npfloat list \<Rightarrow> real list \<Rightarrow> bool list \<Rightarrow> string \<Rightarrow> real list list
     \<Rightarrow> nat list list \<Rightarrow> feature_row list" where
  "wide_rows features ness aucs idx grp rccs rankings =
     map (\<lambda>(m, v, a, c, r).
            \<lparr>row_MotifID = m, row_NES = v, row_AUC = a, row_GROUP = grp,
             row_Recovery = c, row_Ranking = r\<rparr>)
       (zip (mask_select idx features)
          (zip (mask_select idx ness)
             (zip (mask_select idx aucs)
                (zip (mask_select idx rccs) (mask_select idx rankings)))))"

definition make_dataframe ::
  "string list \<Rightarrow> npfloat list \<Rightarrow> real list \<Rightarrow> bool list \<Rightarrow> string \<Rightarrow> real list list
     \<Rightarrow> rank_df \<Rightarrow> string list \<Rightarrow> int \<Rightarrow> py_error + feature_row list" where
  "make_dataframe features ness aucs idx grp rccs db_rankings_regions regions cutoff =
     (if length rccs \<noteq> length idx then Inl IndexError
      else if regions = [] then Inl TypeError
      else if length (df_columns db_rankings_regions) \<noteq> length regions then Inl ValueError
      else if cutoff \<le> 0 then Inl TypeError
      else if \<not> list_all (\<lambda>c. length c = nat cutoff) (mask_select idx rccs)
        then Inl ValueError
      else Inr (wide_rows features ness aucs idx grp rccs (df_values db_rankings_regions)))"

text \<open>Lines 373 and 374: the mean over the rows and the reference curve, rank by rank.\<close>

definition ncols :: "real list list \<Rightarrow> nat" where
  "ncols m = (case m of [] \<Rightarrow> 0 | r # _ \<Rightarrow> length r)"

definition column :: "real list list \<Rightarrow> nat \<Rightarrow> real list" where
  "column m j = map (\<lambda>r. r ! j) m"

definition avgrcc_of :: "real list list \<Rightarrow> real list" where
  "avgrcc_of rccs = map (\<lambda>j. mean (column rccs j)) [0..<ncols rccs]"

definition avg2stdrcc_of :: "real list list \<Rightarrow> real list" where
  "avg2stdrcc_of rccs =
     map (\<lambda>j. avgrcc_of rccs ! j + 2 * std (column rccs j)) [0..<ncols rccs]"

text \<open>Lines 390 to 394: \<open>leading_edge4row\<close> on every row, in row order.\<close>

fun apply_leading_edge4row ::
  "collaborators \<Rightarrow> real list \<Rightarrow> string list \<Rightarrow> real list \<Rightarrow> feature_row list
     \<Rightarrow> enriched_row list run" where
  "apply_leading_edge4row env avg2stdrcc regions weights [] = ret []"
| "apply_leading_edge4row env avg2stdrcc regions weights (row # rows) =
     andthen (ext (Call_leading_edge4row row avg2stdrcc regions weights)
                (leading_edge4row env row avg2stdrcc regions weights))
       (\<lambda>(hits, rank_at_max).
          andthen (apply_leading_edge4row env avg2stdrcc regions weights rows)
            (\<lambda>out. ret (\<lparr>ef_MotifID = row_MotifID row, ef_NES = row_NES row,
                           ef_AUC = row_AUC row, ef_Region_set = row_GROUP row,
                           ef_Motif_hits = hits, ef_Rank_at_max = rank_at_max\<rparr> # out)))"

text \<open>Line 395: the rows in the order the sort returns.\<close>

definition sort_values_NES :: "collaborators \<Rightarrow> enriched_row list \<Rightarrow> enriched_row list" where
  "sort_values_NES env rows = map (\<lambda>k. rows ! k) (sort_values_desc env (map ef_NES rows))"

text \<open>Line 396: the four columns kept in \<open>self.motif_enrichment\<close>.\<close>

definition enrichment_columns :: "enriched_row \<Rightarrow> enrichment_row" where
  "enrichment_columns r =
     \<lparr>me_MotifID = ef_MotifID r, me_Region_set = ef_Region_set r, me_NES = ef_NES r,
      me_AUC = ef_AUC r, me_Rank_at_max = ef_Rank_at_max r, me_annotation = [],
      me_Motif_hits = None\<rparr>"

text \<open>
  Line 406: for every key of the index, the first component of every entry of the
  \<open>Motif_hits\<close> cell of the row labelled by the key.
\<close>

definition loc_Motif_hits :: "enriched_row list \<Rightarrow> string \<Rightarrow> (string \<times> real) list" where
  "loc_Motif_hits rows key =
     (case find (\<lambda>r. ef_MotifID r = key) rows of None \<Rightarrow> [] | Some r \<Rightarrow> ef_Motif_hits r)"

definition db_motif_hits_of :: "enriched_row list \<Rightarrow> (string \<times> string list) list" where
  "db_motif_hits_of rows =
     map (\<lambda>key. (key, map fst (loc_Motif_hits rows key))) (dict_keys (map ef_MotifID rows))"

text \<open>
  Line 407: for every key, the set of the Target values of the mapping rows whose Query
  is in the database hits of the key, as a list.
\<close>

definition rs_motif_hits_of ::
  "collaborators \<Rightarrow> mapping_table \<Rightarrow> (string \<times> string list) list
     \<Rightarrow> (string \<times> string list) list" where
  "rs_motif_hits_of env r2db db_motif_hits =
     map (\<lambda>(key, hits).
            (key, set_iter env (map fst (filter (\<lambda>row. snd row \<in> set hits) r2db))))
       db_motif_hits"

text \<open>Line 409: the column of counts, assigned by position; its length must fit.\<close>

definition set_Motif_hits ::
  "enrichment_row list \<Rightarrow> (string \<times> string list) list \<Rightarrow> py_error + enrichment_row list" where
  "set_Motif_hits rows db_motif_hits =
     (if length db_motif_hits \<noteq> length rows then Inl ValueError
      else Inr (map (\<lambda>(r, key_hits). r\<lparr>me_Motif_hits := Some (length (snd key_hits))\<rparr>)
                  (zip rows db_motif_hits)))"

text \<open>
  Lines 394 to 415: the sort, the annotation, the two dicts of hits, the column of
  counts and the cistromes.
\<close>

definition hits_and_cistromes ::
  "collaborators \<Rightarrow> mapping_table \<Rightarrow> enriched_row list \<Rightarrow> cisTarget_result run" where
  "hits_and_cistromes env r2db enriched =
     (let enriched_features = sort_values_NES env enriched;
          table = map enrichment_columns enriched_features in
      andthen (ext (Call_add_motif_annotation table) (add_motif_annotation env table))
        (\<lambda>annotated.
      let db_motif_hits = db_motif_hits_of enriched_features;
          rs_motif_hits = rs_motif_hits_of env r2db db_motif_hits;
          hits = \<lparr>Database = db_motif_hits, Region_set = rs_motif_hits\<rparr> in
      andthen (lift (set_Motif_hits annotated db_motif_hits)) (\<lambda>table'.
      andthen (ext (Call_get_cistromes table' hits) (get_cistromes env table' hits))
        (\<lambda>cistr.
      ret \<lparr>regions_to_db = r2db, motif_enrichment = table', motif_hits = hits,
           cistromes = cistr\<rparr>))))"

text \<open>Lines 348 to 415: what \<open>run_ctx\<close> does once a feature is enriched.\<close>

definition run_enriched ::
  "collaborators \<Rightarrow> cisTarget \<Rightarrow> cisTargetDatabase \<Rightarrow> mapping_table \<Rightarrow> gene_signature
     \<Rightarrow> rank_df \<Rightarrow> real list \<Rightarrow> npfloat list \<Rightarrow> bool list \<Rightarrow> cisTarget_result run" where
  "run_enriched env self ctx_db r2db region_set_signature db_rankings_regions aucs ness idx =
     (let regions = genes region_set_signature;
          features = df_index db_rankings_regions;
          weights = replicate (length regions) (1::real);
          cutoff = py_int (rank_threshold self * real_of_int (total_regions ctx_db))
      in
      if length features \<noteq> length idx then lift (Inl IndexError)
      else
      andthen (ext (Call_recovery db_rankings_regions (total_regions ctx_db) weights cutoff
                      (auc_threshold self) True)
                 (recovery env db_rankings_regions (total_regions ctx_db) weights cutoff
                      (auc_threshold self) True)) (\<lambda>rccs.
      let avg2stdrcc = avg2stdrcc_of rccs in
      andthen (lift (make_dataframe features ness aucs idx
                       (transcription_factor region_set_signature) rccs db_rankings_regions
                       regions cutoff)) (\<lambda>rows.
      andthen (apply_leading_edge4row env avg2stdrcc regions
                 (map (gene2weight region_set_signature) regions) rows)
        (hits_and_cistromes env r2db))))"

text \<open>Lines 296 to 346: \<open>run_ctx\<close>, on an empty list of calls.\<close>

definition run_ctx ::
  "collaborators \<Rightarrow> cisTarget \<Rightarrow> cisTargetDatabase \<Rightarrow> cisTarget_result run" where
  "run_ctx env self ctx_db =
     andthen (lift (resolve_regions_to_db env self ctx_db)) (\<lambda>r2db.
     let region_set_signature = region_sets_to_signature env (map snd r2db) (name self);
         regions = genes region_set_signature in
     andthen (lift (subset_rankings env self ctx_db regions)) (\<lambda>db_rankings_regions.
     let weights = replicate (length regions) (1::real) in
     andthen (ext (Call_calc_aucs db_rankings_regions (total_regions ctx_db) weights
                     (auc_threshold self))
                (calc_aucs env db_rankings_regions (total_regions ctx_db) weights
                     (auc_threshold self))) (\<lambda>aucs.
     let ness = ness_of aucs;
         enriched_features_idx = enriched_idx ness (nes_threshold self) in
     if count_true enriched_features_idx = 0 then ret (no_enrichment r2db)
     else run_enriched env self ctx_db r2db region_set_signature db_rankings_regions aucs
            ness enriched_features_idx)))"

section \<open>\<open>cisTargetDatabase.load_db\<close>\<close>

text \<open>
  \<open>x.split('__')\<close>: the pieces of \<open>x\<close> between the occurrences of the separator, found
  from the left; \<open>acc\<close> holds the current piece, reversed.
\<close>

fun split_from :: "string \<Rightarrow> string \<Rightarrow> string list" where
  "split_from acc (a # b # cs) =
     (if a = CHR ''_'' \<and> b = CHR ''_'' then rev acc # split_from [] cs
      else split_from (a # acc) (b # cs))"
| "split_from acc [a] = [rev (a # acc)]"
| "split_from acc [] = [rev acc]"

definition py_split :: "string \<Rightarrow> string list" where
  "py_split x = split_from [] x"

text \<open>\<open>'__' in x\<close>.\<close>

fun contains_sep :: "string \<Rightarrow> bool" where
  "contains_sep (a # b # cs) = (a = CHR ''_'' \<and> b = CHR ''_'' \<or> contains_sep (b # cs))"
| "contains_sep [a] = False"
| "contains_sep [] = False"

text \<open>\<open>x.split('__')[1]\<close>, which raises when \<open>x\<close> holds no separator.\<close>

definition second_piece :: "string \<Rightarrow> py_error + string" where
  "second_piece x = (case py_split x of a # b # rest \<Rightarrow> Inr b | _ \<Rightarrow> Inl IndexError)"

text \<open>\<open>[x.split('__')[1] for x in xs]\<close>.\<close>

fun second_pieces :: "string list \<Rightarrow> py_error + string list" where
  "second_pieces [] = Inr []"
| "second_pieces (x # xs) =
     (case second_piece x of
        Inl e \<Rightarrow> Inl e
      | Inr b \<Rightarrow> (case second_pieces xs of Inl e \<Rightarrow> Inl e | Inr bs \<Rightarrow> Inr (b # bs)))"

text \<open>
  The handle of the ranking database (ctxcore's FeatherRankingDatabase): the size of the
  universe, the region keys, and the two loads, of the columns of a signature and of
  the whole database.
\<close>

record ranking_database =
  total_genes :: int
  db_genes :: "string list"
  load :: "string list \<Rightarrow> py_error + rank_df"
  load_full :: "py_error + rank_df"

text \<open>
  The argument \<open>region_sets\<close> by its type: None, a dict of interval collections, a single
  interval collection, or a value of any other type.
\<close>

datatype region_sets_arg =
    RS_None
  | RS_dict "(string \<times> pyranges) list"
  | RS_PyRanges pyranges
  | RS_other

text \<open>The calls \<open>load_db\<close> makes: the region mapper of pycistarget.utils and the loads.\<close>

datatype load_call =
    Call_target_to_query pyranges "string list" real
  | Call_load "string list"
  | Call_load_full

type_synonym target_to_query = "pyranges \<Rightarrow> string list \<Rightarrow> real \<Rightarrow> py_error + mapping_table"

text \<open>Line 114: the dict comprehension, one mapping per named region set.\<close>

fun map_region_sets ::
  "target_to_query \<Rightarrow> string list \<Rightarrow> real \<Rightarrow> (string \<times> pyranges) list
     \<Rightarrow> load_call list \<times> (py_error + (string \<times> mapping_table) list)" where
  "map_region_sets t2q db_regions fraction_overlap [] = ([], Inr [])"
| "map_region_sets t2q db_regions fraction_overlap ((x, rs) # rest) =
     (case t2q rs db_regions fraction_overlap of
        Inl e \<Rightarrow> ([Call_target_to_query rs db_regions fraction_overlap], Inl e)
      | Inr t \<Rightarrow>
          (case map_region_sets t2q db_regions fraction_overlap rest of
             (cs, Inl e) \<Rightarrow> (Call_target_to_query rs db_regions fraction_overlap # cs, Inl e)
           | (cs, Inr d) \<Rightarrow>
               (Call_target_to_query rs db_regions fraction_overlap # cs, Inr ((x, t) # d))))"

text \<open>Lines 108 to 111: the prefix, if the first key has one, and the keys without it.\<close>

definition strip_prefix :: "string list \<Rightarrow> py_error + (string option \<times> string list)" where
  "strip_prefix db_regions =
     (case db_regions of
        [] \<Rightarrow> Inl IndexError
      | g # gs \<Rightarrow>
          if contains_sep g
          then (case second_pieces db_regions of
                  Inl e \<Rightarrow> Inl e
                | Inr stripped \<Rightarrow> Inr (Some (hd (py_split g)), stripped))
          else Inr (None, db_regions))"

text \<open>
  Lines 123 to 129: the prefix goes back on the mapped database regions, the database
  loads the columns of that signature, and the prefix comes off the columns.
\<close>

definition load_signature ::
  "ranking_database \<Rightarrow> string option \<Rightarrow> regions_to_db \<Rightarrow> string list \<Rightarrow> load_call list
     \<Rightarrow> load_call list \<times> (py_error + regions_to_db \<times> rank_df \<times> int)" where
  "load_signature db prefix target_to_db_dict target_regions_in_db cs =
     (let signature = (case prefix of
                         None \<Rightarrow> target_regions_in_db
                       | Some p \<Rightarrow> map (\<lambda>x. p @ ''__'' @ x) target_regions_in_db)
      in (cs @ [Call_load signature],
          case load db signature of
            Inl e \<Rightarrow> Inl e
          | Inr loaded \<Rightarrow>
              (case prefix of
                 None \<Rightarrow> Inr (target_to_db_dict, loaded, total_genes db)
               | Some p \<Rightarrow>
                   (case second_pieces (df_columns loaded) of
                      Inl e \<Rightarrow> Inl e
                    | Inr columns \<Rightarrow>
                        Inr (target_to_db_dict, loaded\<lparr>df_columns := columns\<rparr>,
                             total_genes db)))))"

text \<open>
  Lines 102 to 134, for a database handle that has been opened. The result is the triple
  \<open>(regions_to_db, db_rankings, total_regions)\<close>.
\<close>

definition load_db ::
  "collaborators \<Rightarrow> target_to_query \<Rightarrow> ranking_database \<Rightarrow> region_sets_arg \<Rightarrow> real
     \<Rightarrow> load_call list \<times> (py_error + regions_to_db \<times> rank_df \<times> int)" where
  "load_db env t2q db region_sets fraction_overlap =
     (case strip_prefix (db_genes db) of
        Inl e \<Rightarrow> ([], Inl e)
      | Inr (prefix, db_regions) \<Rightarrow>
          (case region_sets of
             RS_dict d \<Rightarrow>
               (case map_region_sets t2q db_regions fraction_overlap d of
                  (cs, Inl e) \<Rightarrow> (cs, Inl e)
                | (cs, Inr target_to_db_dict) \<Rightarrow>
                    load_signature db prefix (Named target_to_db_dict)
                      (set_iter env (concat (map (\<lambda>(x, t). map snd t) target_to_db_dict))) cs)
           | RS_PyRanges rs \<Rightarrow>
               (case t2q rs db_regions fraction_overlap of
                  Inl e \<Rightarrow> ([Call_target_to_query rs db_regions fraction_overlap], Inl e)
                | Inr target_to_db \<Rightarrow>
                    load_signature db prefix (Single target_to_db)
                      (set_iter env (map snd target_to_db))
                      [Call_target_to_query rs db_regions fraction_overlap])
           | RS_other \<Rightarrow> ([], Inl ValueError)
           | RS_None \<Rightarrow>
               ([Call_load_full],
                case load_full db of
                  Inl e \<Rightarrow> Inl e
                | Inr loaded \<Rightarrow> Inr (NoMapping, loaded, total_genes db))))"

section \<open>Vocabulary of the properties\<close>

text \<open>The regions of the signature of a run, and the weights \<open>np.ones(len(regions))\<close>.\<close>

definition signature_regions :: "collaborators \<Rightarrow> cisTarget \<Rightarrow> mapping_table \<Rightarrow> string list" where
  "signature_regions env self r2db =
     genes (region_sets_to_signature env (map snd r2db) (name self))"

definition uniform_weights :: "string list \<Rightarrow> real list" where
  "uniform_weights regions = replicate (length regions) 1"

text \<open>\<open>int(self.rank_threshold*ctx_db.total_regions)\<close> and the call of line 372.\<close>

definition rank_cutoff :: "cisTarget \<Rightarrow> cisTargetDatabase \<Rightarrow> int" where
  "rank_cutoff self ctx_db = py_int (rank_threshold self * real_of_int (total_regions ctx_db))"

definition recovery_call :: "cisTarget \<Rightarrow> cisTargetDatabase \<Rightarrow> rank_df \<Rightarrow> string list \<Rightarrow> call" where
  "recovery_call self ctx_db dbr regions =
     Call_recovery dbr (total_regions ctx_db) (uniform_weights regions) (rank_cutoff self ctx_db)
       (auc_threshold self) True"

text \<open>The calls of \<open>leading_edge4row\<close> on a list of rows, with the reference curve of \<open>rccs\<close>.\<close>

definition leading_edge_calls ::
  "gene_signature \<Rightarrow> real list list \<Rightarrow> feature_row list \<Rightarrow> call list" where
  "leading_edge_calls sg rccs rows =
     map (\<lambda>row. Call_leading_edge4row row (avg2stdrcc_of rccs) (genes sg)
                   (map (gene2weight sg) (genes sg))) rows"

text \<open>A row of \<open>enriched_features\<close> is the leading edge of a row of the wide table.\<close>

definition leading_edge_of ::
  "collaborators \<Rightarrow> real list \<Rightarrow> string list \<Rightarrow> real list \<Rightarrow> feature_row \<Rightarrow> enriched_row
     \<Rightarrow> bool" where
  "leading_edge_of env avg g w row out \<longleftrightarrow>
     leading_edge4row env row avg g w = Inr (ef_Motif_hits out, ef_Rank_at_max out)
     \<and> ef_MotifID out = row_MotifID row \<and> ef_NES out = row_NES row
     \<and> ef_AUC out = row_AUC row \<and> ef_Region_set out = row_GROUP row"

text \<open>\<open>self.motif_enrichment\<close> at line 396 and \<open>self.motif_hits\<close> at line 408.\<close>

definition enrichment_table :: "collaborators \<Rightarrow> enriched_row list \<Rightarrow> enrichment_row list" where
  "enrichment_table env enriched = map enrichment_columns (sort_values_NES env enriched)"

definition motif_hits_of ::
  "collaborators \<Rightarrow> mapping_table \<Rightarrow> enriched_row list \<Rightarrow> region_dicts" where
  "motif_hits_of env r2db enriched =
     \<lparr>Database = db_motif_hits_of (sort_values_NES env enriched),
      Region_set = rs_motif_hits_of env r2db (db_motif_hits_of (sort_values_NES env enriched))\<rparr>"

text \<open>The universe size and the weights of a call to the statistical kernel.\<close>

fun kernel_args :: "call \<Rightarrow> (int \<times> real list) option" where
  "kernel_args (Call_calc_aucs df u w a) = Some (u, w)"
| "kernel_args (Call_recovery df u w k a b) = Some (u, w)"
| "kernel_args (Call_leading_edge4row row avg g w) = None"
| "kernel_args (Call_add_motif_annotation t) = None"
| "kernel_args (Call_get_cistromes t h) = None"




section \<open>A small run\<close>

text \<open>
  Four motifs, three database regions, three query regions of the region set \<open>topic\<close>
  mapped to two of them; a kernel whose AUC of a motif is the sum of its ranks.
\<close>

definition demo_env :: collaborators where
  "demo_env =
     \<lparr>set_iter = remdups,
      coord_to_region_names = map fst,
      region_sets_to_signature =
        (\<lambda>regions nm. \<lparr>genes = remdups regions, transcription_factor = nm,
                         gene2weight = (\<lambda>g. 1)\<rparr>),
      calc_aucs = (\<lambda>df n w a. Inr (map (\<lambda>row. real (sum_list row)) (df_values df))),
      recovery =
        (\<lambda>df n w k a b. Inr (map (\<lambda>row. [real (sum_list row), real (sum_list row)]) (df_values df))),
      leading_edge4row =
        (\<lambda>row avg g w. Inr (map (\<lambda>(x, r). (x, 1)) (filter (\<lambda>(x, r). r \<le> 1) (zip g (row_Ranking row))), 1)),
      sort_values_desc = (\<lambda>xs. [0..<length xs]),
      add_motif_annotation =
        (\<lambda>rows. Inr (map (\<lambda>r. r\<lparr>me_annotation := [(''Direct_annot'', ''TF'')]\<rparr>) rows)),
      get_cistromes = (\<lambda>rows hits. Inr hits)\<rparr>"

definition demo_db :: cisTargetDatabase where
  "demo_db =
     \<lparr>db_regions_to_db =
        Named [(''topic'', [(''t1'', ''r1''), (''t2'', ''r2''), (''t3'', ''r1'')])],
      db_rankings =
        \<lparr>df_index = [''m1'', ''m2'', ''m3'', ''m4''],
         df_columns = [''r1'', ''r2'', ''r3''],
         df_values = [[1, 1, 7], [2, 0, 7], [0, 0, 7], [0, 0, 7]]\<rparr>,
      total_regions = 100\<rparr>"

definition demo_self :: cisTarget where
  "demo_self =
     \<lparr>region_set = [], name = ''topic'', auc_threshold = 5 / 1000, nes_threshold = 1,
      rank_threshold = 2 / 100, motifs_to_use = None\<rparr>"

definition demo_dbr :: rank_df where
  "demo_dbr = \<lparr>df_index = [''m1'', ''m2'', ''m3'', ''m4''], df_columns = [''r2'', ''r1''],
          df_values = [[1, 1], [0, 2], [0, 0], [0, 0]]\<rparr>"

definition demo_rows :: "feature_row list" where
  "demo_rows =
     [\<lparr>row_MotifID = ''m1'', row_NES = Fin 1, row_AUC = 2, row_GROUP = ''topic'',
       row_Recovery = [2, 2], row_Ranking = [1, 1]\<rparr>,
      \<lparr>row_MotifID = ''m2'', row_NES = Fin 1, row_AUC = 2, row_GROUP = ''topic'',
       row_Recovery = [2, 2], row_Ranking = [0, 2]\<rparr>]"

definition demo_table :: "nat option \<Rightarrow> nat option \<Rightarrow> (string \<times> string) list \<Rightarrow> enrichment_row list" where
  "demo_table c1 c2 ann =
     [\<lparr>me_MotifID = ''m1'', me_Region_set = ''topic'', me_NES = Fin 1, me_AUC = 2,
       me_Rank_at_max = 1, me_annotation = ann, me_Motif_hits = c1\<rparr>,
      \<lparr>me_MotifID = ''m2'', me_Region_set = ''topic'', me_NES = Fin 1, me_AUC = 2,
       me_Rank_at_max = 1, me_annotation = ann, me_Motif_hits = c2\<rparr>]"

definition demo_hits :: region_dicts where
  "demo_hits =
     \<lparr>Database = [(''m1'', [''r2'', ''r1'']), (''m2'', [''r2''])],
      Region_set = [(''m1'', [''t1'', ''t2'', ''t3'']), (''m2'', [''t2''])]\<rparr>"








text \<open>
  A database of three regions whose keys carry the prefix \<open>hg38\<close>, and a region mapper
  that maps a query region to the database region of its own name.
\<close>

definition demo_feather :: ranking_database where
  "demo_feather =
     \<lparr>total_genes = 100,
      db_genes = [''hg38__r1'', ''hg38__r2'', ''hg38__r3''],
      load = (\<lambda>sg. Inr \<lparr>df_index = [''m1'', ''m2''],
                          df_columns = filter (\<lambda>g. g \<in> set sg) [''hg38__r1'', ''hg38__r2'', ''hg38__r3''],
                          df_values = []\<rparr>),
      load_full = Inr \<lparr>df_index = [''m1'', ''m2''],
                       df_columns = [''hg38__r1'', ''hg38__r2'', ''hg38__r3''],
                       df_values = []\<rparr>\<rparr>"

definition demo_target_to_query :: target_to_query where
  "demo_target_to_query rs voc fo =
     Inr (filter (\<lambda>(t, q). q \<in> set voc) (map (\<lambda>(c, s, e). (c, c)) rs))"

section \<open>Lemmas\<close>

lemma andthen_lift_Inr: "andthen (lift (Inr x)) f tr = f x tr"
  by (simp add: andthen_def lift_def)

lemma andthen_lift_Inl: "andthen (lift (Inl e)) f tr = (tr, Inl e)"
  by (simp add: andthen_def lift_def)

lemma andthen_ext_Inr: "andthen (ext c (Inr x)) f tr = f x (tr @ [c])"
  by (simp add: andthen_def ext_def)

lemma andthen_ext_Inl: "andthen (ext c (Inl e)) f tr = (tr @ [c], Inl e)"
  by (simp add: andthen_def ext_def)





lemma count_true_none: "count_true (map (\<lambda>v. False) xs) = 0"
  by (simp add: count_true_def)


lemma demo_genes:
  "genes (region_sets_to_signature demo_env (map snd [(''t1'', ''r1''), (''t2'', ''r2''), (''t3'', ''r1'')]) (name demo_self)) = [''r2'', ''r1'']"
  by (simp add: demo_env_def)

lemma upt3: "[0..<3] = [0, 1, 2]" by (simp add: upt_rec)

lemma upt2: "[0..<2] = [0, 1]" by (simp add: upt_rec)



lemma demo_ness: "ness_of [2, 2, 0, 0] = [Fin 1, Fin 1, Fin (-1), Fin (-1)]"
  by (simp add: ness_of_def np_mean_def np_std_def mean_def std_def np_divide_def)

lemma count_true_0_iff: "count_true msk = 0 \<longleftrightarrow> list_all (\<lambda>b. \<not> b) msk"
  by (induction msk) (auto simp: count_true_def)

lemma count_true_enriched_idx:
  "count_true (enriched_idx ness thr) = 0 \<longleftrightarrow> list_all (\<lambda>v. \<not> np_ge v thr) ness"
  by (simp add: count_true_0_iff enriched_idx_def list_all_iff)

lemma run_ctx_after_aucs:
  assumes "resolve_regions_to_db env self ctx_db = Inr r2db"
    and "subset_rankings env self ctx_db (signature_regions env self r2db) = Inr dbr"
    and "calc_aucs env dbr (total_regions ctx_db)
           (uniform_weights (signature_regions env self r2db)) (auc_threshold self) = Inr aucs"
  shows "run_ctx env self ctx_db tr =
     (if count_true (enriched_idx (ness_of aucs) (nes_threshold self)) = 0
      then (tr @ [Call_calc_aucs dbr (total_regions ctx_db)
                    (uniform_weights (signature_regions env self r2db)) (auc_threshold self)],
            Inr (no_enrichment r2db))
      else run_enriched env self ctx_db r2db
             (region_sets_to_signature env (map snd r2db) (name self)) dbr aucs (ness_of aucs)
             (enriched_idx (ness_of aucs) (nes_threshold self))
             (tr @ [Call_calc_aucs dbr (total_regions ctx_db)
                    (uniform_weights (signature_regions env self r2db)) (auc_threshold self)]))"
  using assms
  by (simp add: run_ctx_def Let_def andthen_lift_Inr andthen_ext_Inr ret_def
      signature_regions_def uniform_weights_def)


lemma apply_leading_edge4row_shape:
  "apply_leading_edge4row env avg g w rows tr = (tr', res) \<Longrightarrow>
     \<exists>k\<le>length rows.
        tr' = tr @ map (\<lambda>row. Call_leading_edge4row row avg g w) (take k rows)
        \<and> (\<forall>out. res = Inr out \<longrightarrow>
               k = length rows \<and> list_all2 (leading_edge_of env avg g w) rows out)"
proof (induction rows arbitrary: tr tr' res)
  case Nil
  then show ?case by (auto simp: ret_def)
next
  case (Cons row rows)
  show ?case
  proof (cases "leading_edge4row env row avg g w")
    case (Inl e)
    with Cons.prems have "tr' = tr @ [Call_leading_edge4row row avg g w]"
      and "res = Inl e"
      by (simp_all add: andthen_ext_Inl)
    then show ?thesis by (intro exI[of _ 1]) simp
  next
    case (Inr p)
    obtain hits ram where p: "p = (hits, ram)" by (cases p)
    obtain tr1 r1 where rec:
      "apply_leading_edge4row env avg g w rows (tr @ [Call_leading_edge4row row avg g w]) = (tr1, r1)"
      by (cases "apply_leading_edge4row env avg g w rows (tr @ [Call_leading_edge4row row avg g w])")
    from Cons.IH[OF rec] obtain k where k: "k \<le> length rows"
      "tr1 = (tr @ [Call_leading_edge4row row avg g w]) @ map (\<lambda>row. Call_leading_edge4row row avg g w) (take k rows)"
      "\<forall>out. r1 = Inr out \<longrightarrow>
          k = length rows \<and> list_all2 (leading_edge_of env avg g w) rows out"
      by blast
    have step: "(tr', res) =
       (case r1 of Inl e \<Rightarrow> (tr1, Inl e)
        | Inr out \<Rightarrow> (tr1, Inr (\<lparr>ef_MotifID = row_MotifID row, ef_NES = row_NES row,
                           ef_AUC = row_AUC row, ef_Region_set = row_GROUP row,
                           ef_Motif_hits = hits, ef_Rank_at_max = ram\<rparr> # out)))"
      using Cons.prems Inr p rec
      by (simp add: andthen_ext_Inr) (simp add: andthen_def ret_def split: sum.splits)
    show ?thesis
    proof (intro exI[of _ "Suc k"] conjI allI impI)
      show "Suc k \<le> length (row # rows)" using k(1) by simp
      show "tr' = tr @ map (\<lambda>row. Call_leading_edge4row row avg g w) (take (Suc k) (row # rows))"
        using step k(2) by (cases r1) simp_all
      fix out assume "res = Inr out"
      with step obtain out' where "r1 = Inr out'"
        and "out = \<lparr>ef_MotifID = row_MotifID row, ef_NES = row_NES row,
                           ef_AUC = row_AUC row, ef_Region_set = row_GROUP row,
                           ef_Motif_hits = hits, ef_Rank_at_max = ram\<rparr> # out'"
        by (cases r1) auto
      then have both: "Suc k = length (row # rows)
          \<and> list_all2 (leading_edge_of env avg g w) (row # rows) out"
        using k(3) Inr p by (simp add: leading_edge_of_def)
      from both show "Suc k = length (row # rows)" by simp
      from both show "list_all2 (leading_edge_of env avg g w) (row # rows) out" by simp
    qed
  qed
qed

lemma andthen_eq:
  "andthen m f tr = (tr', res) \<Longrightarrow>
     (\<exists>e. m tr = (tr', Inl e) \<and> res = Inl e) \<or> (\<exists>tr1 x. m tr = (tr1, Inr x) \<and> f x tr1 = (tr', res))"
  by (auto simp: andthen_def split: prod.splits sum.splits)

lemma run_enriched_cases:
  assumes run: "run_enriched env self ctx_db r2db sg dbr aucs ness idx tr = (tr', res)"
  obtains
    (mask) "length (df_index dbr) \<noteq> length idx" "tr' = tr" "res = Inl IndexError"
  | (recovery_raises) e where "length (df_index dbr) = length idx"
      "recovery env dbr (total_regions ctx_db) (uniform_weights (genes sg))
         (rank_cutoff self ctx_db) (auc_threshold self) True = Inl e"
      "tr' = tr @ [recovery_call self ctx_db dbr (genes sg)]" "res = Inl e"
  | (frame_raises) rccs e where "length (df_index dbr) = length idx"
      "recovery env dbr (total_regions ctx_db) (uniform_weights (genes sg))
         (rank_cutoff self ctx_db) (auc_threshold self) True = Inr rccs"
      "make_dataframe (df_index dbr) ness aucs idx (transcription_factor sg) rccs dbr
         (genes sg) (rank_cutoff self ctx_db) = Inl e"
      "tr' = tr @ [recovery_call self ctx_db dbr (genes sg)]" "res = Inl e"
  | (edge_raises) rccs rows k e where "length (df_index dbr) = length idx"
      "recovery env dbr (total_regions ctx_db) (uniform_weights (genes sg))
         (rank_cutoff self ctx_db) (auc_threshold self) True = Inr rccs"
      "make_dataframe (df_index dbr) ness aucs idx (transcription_factor sg) rccs dbr
         (genes sg) (rank_cutoff self ctx_db) = Inr rows"
      "k \<le> length rows"
      "tr' = tr @ recovery_call self ctx_db dbr (genes sg)
               # leading_edge_calls sg rccs (take k rows)"
      "res = Inl e"
  | (edges_done) rccs rows enriched where "length (df_index dbr) = length idx"
      "recovery env dbr (total_regions ctx_db) (uniform_weights (genes sg))
         (rank_cutoff self ctx_db) (auc_threshold self) True = Inr rccs"
      "make_dataframe (df_index dbr) ness aucs idx (transcription_factor sg) rccs dbr
         (genes sg) (rank_cutoff self ctx_db) = Inr rows"
      "list_all2 (leading_edge_of env (avg2stdrcc_of rccs) (genes sg)
                    (map (gene2weight sg) (genes sg))) rows enriched"
      "hits_and_cistromes env r2db enriched
         (tr @ recovery_call self ctx_db dbr (genes sg) # leading_edge_calls sg rccs rows)
       = (tr', res)"
proof (cases "length (df_index dbr) = length idx")
  case False
  with run have "tr' = tr" "res = Inl IndexError"
    by (simp_all add: run_enriched_def Let_def lift_def)
  with False show ?thesis by (rule mask)
next
  case len: True
  let ?rc = "recovery_call self ctx_db dbr (genes sg)"
  show ?thesis
  proof (cases "recovery env dbr (total_regions ctx_db) (uniform_weights (genes sg))
         (rank_cutoff self ctx_db) (auc_threshold self) True")
    case (Inl e)
    with run len have "tr' = tr @ [?rc]" "res = Inl e"
      by (simp_all add: run_enriched_def Let_def andthen_ext_Inl uniform_weights_def
          rank_cutoff_def recovery_call_def)
    with len Inl show ?thesis by (rule recovery_raises)
  next
    case rec: (Inr rccs)
    let ?mk = "make_dataframe (df_index dbr) ness aucs idx (transcription_factor sg) rccs dbr
         (genes sg) (rank_cutoff self ctx_db)"
    have run1: "andthen (lift ?mk)
        (\<lambda>rows. andthen (apply_leading_edge4row env (avg2stdrcc_of rccs) (genes sg)
                 (map (gene2weight sg) (genes sg)) rows) (hits_and_cistromes env r2db))
        (tr @ [?rc]) = (tr', res)"
      using run len rec
      by (simp add: run_enriched_def Let_def andthen_ext_Inr uniform_weights_def
          rank_cutoff_def recovery_call_def)
    show ?thesis
    proof (cases ?mk)
      case (Inl e)
      with run1 have "tr' = tr @ [?rc]" "res = Inl e"
        by (simp_all add: andthen_lift_Inl)
      with len rec Inl show ?thesis by (rule frame_raises)
    next
      case mk: (Inr rows)
      with run1 have run2: "andthen (apply_leading_edge4row env (avg2stdrcc_of rccs) (genes sg)
                 (map (gene2weight sg) (genes sg)) rows) (hits_and_cistromes env r2db)
        (tr @ [?rc]) = (tr', res)"
        by (simp add: andthen_lift_Inr)
      obtain tr1 r1 where le: "apply_leading_edge4row env (avg2stdrcc_of rccs) (genes sg)
                 (map (gene2weight sg) (genes sg)) rows (tr @ [?rc]) = (tr1, r1)"
        by (cases "apply_leading_edge4row env (avg2stdrcc_of rccs) (genes sg)
                 (map (gene2weight sg) (genes sg)) rows (tr @ [?rc])")
      from apply_leading_edge4row_shape[OF le] obtain k where k: "k \<le> length rows"
        "tr1 = tr @ ?rc # leading_edge_calls sg rccs (take k rows)"
        "\<forall>out. r1 = Inr out \<longrightarrow> k = length rows \<and>
           list_all2 (leading_edge_of env (avg2stdrcc_of rccs) (genes sg)
                    (map (gene2weight sg) (genes sg))) rows out"
        by (auto simp: leading_edge_calls_def)
      show ?thesis
      proof (cases r1)
        case (Inl e)
        with run2 le have "tr' = tr1" "res = Inl e" by (simp_all add: andthen_def)
        with len rec mk k(1) k(2) show ?thesis by (intro edge_raises[of rccs rows k e]) simp_all
      next
        case (Inr enriched)
        with k(3) have rel: "list_all2 (leading_edge_of env (avg2stdrcc_of rccs) (genes sg)
                    (map (gene2weight sg) (genes sg))) rows enriched" by simp
        from Inr run2 le have fin: "hits_and_cistromes env r2db enriched tr1 = (tr', res)"
          by (simp add: andthen_def)
        have tr1: "tr1 = tr @ ?rc # leading_edge_calls sg rccs rows"
          using k(2) k(3) Inr by simp
        from len rec mk rel fin[unfolded tr1] show ?thesis by (rule edges_done)
      qed
    qed
  qed
qed

lemma hits_and_cistromes_cases:
  assumes run: "hits_and_cistromes env r2db enriched tr = (tr', res)"
  obtains
    (annotation_raises) e where
      "add_motif_annotation env (enrichment_table env enriched) = Inl e"
      "tr' = tr @ [Call_add_motif_annotation (enrichment_table env enriched)]" "res = Inl e"
  | (counts_raise) annotated e where
      "add_motif_annotation env (enrichment_table env enriched) = Inr annotated"
      "set_Motif_hits annotated (Database (motif_hits_of env r2db enriched)) = Inl e"
      "tr' = tr @ [Call_add_motif_annotation (enrichment_table env enriched)]" "res = Inl e"
  | (cistromes_raise) annotated table' e where
      "add_motif_annotation env (enrichment_table env enriched) = Inr annotated"
      "set_Motif_hits annotated (Database (motif_hits_of env r2db enriched)) = Inr table'"
      "get_cistromes env table' (motif_hits_of env r2db enriched) = Inl e"
      "tr' = tr @ [Call_add_motif_annotation (enrichment_table env enriched),
                   Call_get_cistromes table' (motif_hits_of env r2db enriched)]"
      "res = Inl e"
  | (returns) annotated table' cistr where
      "add_motif_annotation env (enrichment_table env enriched) = Inr annotated"
      "set_Motif_hits annotated (Database (motif_hits_of env r2db enriched)) = Inr table'"
      "get_cistromes env table' (motif_hits_of env r2db enriched) = Inr cistr"
      "tr' = tr @ [Call_add_motif_annotation (enrichment_table env enriched),
                   Call_get_cistromes table' (motif_hits_of env r2db enriched)]"
      "res = Inr \<lparr>regions_to_db = r2db, motif_enrichment = table',
                   motif_hits = motif_hits_of env r2db enriched, cistromes = cistr\<rparr>"
proof (cases "add_motif_annotation env (enrichment_table env enriched)")
  case (Inl e)
  with run have "tr' = tr @ [Call_add_motif_annotation (enrichment_table env enriched)]"
    "res = Inl e"
    by (simp_all add: hits_and_cistromes_def Let_def enrichment_table_def andthen_ext_Inl)
  with Inl show ?thesis by (rule annotation_raises)
next
  case ann: (Inr annotated)
  show ?thesis
  proof (cases "set_Motif_hits annotated (Database (motif_hits_of env r2db enriched))")
    case (Inl e)
    with run ann have "tr' = tr @ [Call_add_motif_annotation (enrichment_table env enriched)]"
      "res = Inl e"
      by (simp_all add: hits_and_cistromes_def Let_def enrichment_table_def motif_hits_of_def
          andthen_ext_Inr andthen_lift_Inl)
    with ann Inl show ?thesis by (rule counts_raise)
  next
    case cnt: (Inr table')
    show ?thesis
    proof (cases "get_cistromes env table' (motif_hits_of env r2db enriched)")
      case (Inl e)
      with run ann cnt have
        "tr' = tr @ [Call_add_motif_annotation (enrichment_table env enriched),
                   Call_get_cistromes table' (motif_hits_of env r2db enriched)]"
        "res = Inl e"
        by (simp_all add: hits_and_cistromes_def Let_def enrichment_table_def motif_hits_of_def
            andthen_ext_Inr andthen_lift_Inr andthen_ext_Inl)
      with ann cnt Inl show ?thesis by (rule cistromes_raise)
    next
      case (Inr cistr)
      with run ann cnt have
        "tr' = tr @ [Call_add_motif_annotation (enrichment_table env enriched),
                   Call_get_cistromes table' (motif_hits_of env r2db enriched)]"
        "res = Inr \<lparr>regions_to_db = r2db, motif_enrichment = table',
                   motif_hits = motif_hits_of env r2db enriched, cistromes = cistr\<rparr>"
        by (auto simp: hits_and_cistromes_def Let_def enrichment_table_def motif_hits_of_def
            andthen_ext_Inr andthen_lift_Inr ret_def)
      with ann cnt Inr show ?thesis by (rule returns)
    qed
  qed
qed


lemma hits_and_cistromes_kernel:
  assumes "hits_and_cistromes env r2db enriched tr = (tr', res)"
  shows "\<exists>cs. tr' = tr @ cs \<and> (\<forall>c\<in>set cs. kernel_args c = None)"
  using assms by (cases rule: hits_and_cistromes_cases) auto

lemma run_enriched_kernel:
  assumes "run_enriched env self ctx_db r2db sg dbr aucs ness idx tr = (tr', res)"
  shows "\<exists>cs. tr' = tr @ cs \<and>
     (\<forall>c\<in>set cs. kernel_args c = None
        \<or> kernel_args c = Some (total_regions ctx_db, uniform_weights (genes sg)))"
  using assms
proof (cases rule: run_enriched_cases)
  case (edges_done rccs rows enriched)
  from hits_and_cistromes_kernel[OF edges_done(5)] obtain cs where
    "tr' = (tr @ recovery_call self ctx_db dbr (genes sg) # leading_edge_calls sg rccs rows) @ cs"
    "\<forall>c\<in>set cs. kernel_args c = None" by blast
  then show ?thesis
    by (intro exI[of _ "recovery_call self ctx_db dbr (genes sg) # leading_edge_calls sg rccs rows @ cs"])
      (auto simp: recovery_call_def leading_edge_calls_def)
qed (auto simp: recovery_call_def leading_edge_calls_def)

lemma run_ctx_cases:
  assumes run: "run_ctx env self ctx_db tr = (tr', res)"
  obtains
    (resolve_raises) e where "resolve_regions_to_db env self ctx_db = Inl e"
      "tr' = tr" "res = Inl e"
  | (subset_raises) r2db e where "resolve_regions_to_db env self ctx_db = Inr r2db"
      "subset_rankings env self ctx_db (signature_regions env self r2db) = Inl e"
      "tr' = tr" "res = Inl e"
  | (aucs_raise) r2db dbr e where "resolve_regions_to_db env self ctx_db = Inr r2db"
      "subset_rankings env self ctx_db (signature_regions env self r2db) = Inr dbr"
      "calc_aucs env dbr (total_regions ctx_db)
         (uniform_weights (signature_regions env self r2db)) (auc_threshold self) = Inl e"
      "tr' = tr @ [Call_calc_aucs dbr (total_regions ctx_db)
                     (uniform_weights (signature_regions env self r2db)) (auc_threshold self)]"
      "res = Inl e"
  | (none_enriched) r2db dbr aucs where "resolve_regions_to_db env self ctx_db = Inr r2db"
      "subset_rankings env self ctx_db (signature_regions env self r2db) = Inr dbr"
      "calc_aucs env dbr (total_regions ctx_db)
         (uniform_weights (signature_regions env self r2db)) (auc_threshold self) = Inr aucs"
      "count_true (enriched_idx (ness_of aucs) (nes_threshold self)) = 0"
      "tr' = tr @ [Call_calc_aucs dbr (total_regions ctx_db)
                     (uniform_weights (signature_regions env self r2db)) (auc_threshold self)]"
      "res = Inr (no_enrichment r2db)"
  | (some_enriched) r2db dbr aucs where "resolve_regions_to_db env self ctx_db = Inr r2db"
      "subset_rankings env self ctx_db (signature_regions env self r2db) = Inr dbr"
      "calc_aucs env dbr (total_regions ctx_db)
         (uniform_weights (signature_regions env self r2db)) (auc_threshold self) = Inr aucs"
      "count_true (enriched_idx (ness_of aucs) (nes_threshold self)) \<noteq> 0"
      "run_enriched env self ctx_db r2db
         (region_sets_to_signature env (map snd r2db) (name self)) dbr aucs (ness_of aucs)
         (enriched_idx (ness_of aucs) (nes_threshold self))
         (tr @ [Call_calc_aucs dbr (total_regions ctx_db)
                     (uniform_weights (signature_regions env self r2db)) (auc_threshold self)])
       = (tr', res)"
proof (cases "resolve_regions_to_db env self ctx_db")
  case (Inl e)
  with run have "tr' = tr" "res = Inl e" by (simp_all add: run_ctx_def andthen_lift_Inl)
  with Inl show ?thesis by (rule resolve_raises)
next
  case r: (Inr r2db)
  show ?thesis
  proof (cases "subset_rankings env self ctx_db (signature_regions env self r2db)")
    case (Inl e)
    with run r have "tr' = tr" "res = Inl e"
      by (simp_all add: run_ctx_def andthen_lift_Inl andthen_lift_Inr Let_def
          signature_regions_def)
    with r Inl show ?thesis by (rule subset_raises)
  next
    case s: (Inr dbr)
    show ?thesis
    proof (cases "calc_aucs env dbr (total_regions ctx_db)
         (uniform_weights (signature_regions env self r2db)) (auc_threshold self)")
      case (Inl e)
      with run r s have
        "tr' = tr @ [Call_calc_aucs dbr (total_regions ctx_db)
                     (uniform_weights (signature_regions env self r2db)) (auc_threshold self)]"
        "res = Inl e"
        by (simp_all add: run_ctx_def andthen_lift_Inr andthen_ext_Inl Let_def
            signature_regions_def uniform_weights_def)
      with r s Inl show ?thesis by (rule aucs_raise)
    next
      case a: (Inr aucs)
      note eq = run_ctx_after_aucs[OF r s a, of tr]
      show ?thesis
      proof (cases "count_true (enriched_idx (ness_of aucs) (nes_threshold self)) = 0")
        case True
        with run eq have
          "tr' = tr @ [Call_calc_aucs dbr (total_regions ctx_db)
                     (uniform_weights (signature_regions env self r2db)) (auc_threshold self)]"
          "res = Inr (no_enrichment r2db)" by simp_all
        with r s a True show ?thesis by (rule none_enriched)
      next
        case False
        with run eq have "run_enriched env self ctx_db r2db
         (region_sets_to_signature env (map snd r2db) (name self)) dbr aucs (ness_of aucs)
         (enriched_idx (ness_of aucs) (nes_threshold self))
         (tr @ [Call_calc_aucs dbr (total_regions ctx_db)
                     (uniform_weights (signature_regions env self r2db)) (auc_threshold self)])
         = (tr', res)" by simp
        with r s a False show ?thesis by (rule some_enriched)
      qed
    qed
  qed
qed


lemma demo_run:
  "run_ctx demo_env demo_self demo_db [] =
     ([Call_calc_aucs demo_dbr 100 [1, 1] (5 / 1000),
       Call_recovery demo_dbr 100 [1, 1] 2 (5 / 1000) True,
       Call_leading_edge4row (demo_rows ! 0) [3, 3] [''r2'', ''r1''] [1, 1],
       Call_leading_edge4row (demo_rows ! 1) [3, 3] [''r2'', ''r1''] [1, 1],
       Call_add_motif_annotation (demo_table None None []),
       Call_get_cistromes (demo_table (Some 2) (Some 1) [(''Direct_annot'', ''TF'')]) demo_hits],
      Inr \<lparr>regions_to_db = [(''t1'', ''r1''), (''t2'', ''r2''), (''t3'', ''r1'')],
           motif_enrichment = demo_table (Some 2) (Some 1) [(''Direct_annot'', ''TF'')],
           motif_hits = demo_hits, cistromes = demo_hits\<rparr>)"
  by (simp add: run_ctx_def run_enriched_def hits_and_cistromes_def Let_def
      andthen_def lift_def ext_def ret_def
      resolve_regions_to_db_def subset_rankings_def getitem_columns_def take_labels_def
      positions_def upt3 upt2 demo_env_def demo_self_def demo_db_def demo_dbr_def demo_rows_def
      demo_table_def demo_hits_def ness_of_def np_mean_def np_std_def mean_def std_def
      np_divide_def enriched_idx_def count_true_def make_dataframe_def wide_rows_def
      mask_select_def py_int_def avg2stdrcc_of_def avgrcc_of_def ncols_def column_def
      sort_values_NES_def enrichment_columns_def db_motif_hits_of_def loc_Motif_hits_def
      dict_keys_def rs_motif_hits_of_def set_Motif_hits_def)






























































lemma split_from_nonempty: "split_from acc x \<noteq> []"
  by (induction acc x rule: split_from.induct) auto





lemma contains_sep_split_from: "contains_sep x \<longleftrightarrow> 2 \<le> length (split_from acc x)"
proof (induction acc x rule: split_from.induct)
  case (1 acc a b cs)
  have "1 \<le> length (split_from [] cs)"
    using split_from_nonempty[of "[]" cs] by (cases "split_from [] cs") auto
  with 1 show ?case by auto
qed auto

lemma contains_sep_py_split: "contains_sep x \<longleftrightarrow> 2 \<le> length (py_split x)"
  by (simp add: py_split_def contains_sep_split_from)










section \<open>The claims\<close>

subsection \<open>Zero enrichment\<close>

text \<open>
  Claim C2. If no motif reaches the NES threshold, \<open>run_ctx\<close> returns without raising:
  \<open>motif_enrichment\<close> is the empty table, \<open>motif_hits\<close> and \<open>cistromes\<close> are each a dict
  with the keys \<open>Database\<close> and \<open>Region_set\<close> mapped to empty dicts, and the only call made
  is the AUC computation: no recovery curve, leading edge, annotation or cistrome is
  computed.
\<close>

theorem run_ctx_zero_enrichment:
  assumes "resolve_regions_to_db env self ctx_db = Inr r2db"
    and "subset_rankings env self ctx_db (signature_regions env self r2db) = Inr dbr"
    and "calc_aucs env dbr (total_regions ctx_db)
           (uniform_weights (signature_regions env self r2db)) (auc_threshold self) = Inr aucs"
    and "list_all (\<lambda>v. \<not> np_ge v (nes_threshold self)) (ness_of aucs)"
  shows "run_ctx env self ctx_db [] =
     ([Call_calc_aucs dbr (total_regions ctx_db)
         (uniform_weights (signature_regions env self r2db)) (auc_threshold self)],
      Inr \<lparr>regions_to_db = r2db, motif_enrichment = [],
           motif_hits = \<lparr>Database = [], Region_set = []\<rparr>,
           cistromes = \<lparr>Database = [], Region_set = []\<rparr>\<rparr>)"
  using assms(4)
  by (simp add: run_ctx_after_aucs[OF assms(1-3)] count_true_enriched_idx no_enrichment_def)

theorem run_ctx_zero_enrichment_witness:
  "list_all (\<lambda>v. \<not> np_ge v 3) (ness_of [2, 2, 0, 0])
   \<and> run_ctx demo_env (demo_self\<lparr>nes_threshold := 3\<rparr>) demo_db [] =
       ([Call_calc_aucs demo_dbr 100 [1, 1] (5 / 1000)],
        Inr \<lparr>regions_to_db = [(''t1'', ''r1''), (''t2'', ''r2''), (''t3'', ''r1'')],
             motif_enrichment = [],
             motif_hits = \<lparr>Database = [], Region_set = []\<rparr>,
             cistromes = \<lparr>Database = [], Region_set = []\<rparr>\<rparr>)"
proof -
  let ?self = "demo_self\<lparr>nes_threshold := 3\<rparr>"
  let ?r2db = "[(''t1'', ''r1''), (''t2'', ''r2''), (''t3'', ''r1'')]"
  have g: "signature_regions demo_env ?self ?r2db = [''r2'', ''r1'']"
    by (simp add: signature_regions_def demo_env_def)
  have h1: "resolve_regions_to_db demo_env ?self demo_db = Inr ?r2db"
    by (simp add: resolve_regions_to_db_def demo_db_def demo_self_def)
  have h2: "subset_rankings demo_env ?self demo_db (signature_regions demo_env ?self ?r2db)
              = Inr demo_dbr"
    unfolding g
    by (simp add: subset_rankings_def demo_self_def demo_db_def getitem_columns_def
        take_labels_def positions_def upt3 demo_dbr_def)
  have h3: "calc_aucs demo_env demo_dbr (total_regions demo_db)
              (uniform_weights (signature_regions demo_env ?self ?r2db)) (auc_threshold ?self)
              = Inr [2, 2, 0, 0]"
    by (simp add: demo_env_def demo_dbr_def)
  have h4: "list_all (\<lambda>v. \<not> np_ge v (nes_threshold ?self)) (ness_of [2, 2, 0, 0])"
    by (simp add: demo_ness)
  have t: "total_regions demo_db = 100" by (simp add: demo_db_def)
  have a: "auc_threshold ?self = 5 / 1000" by (simp add: demo_self_def)
  have w: "uniform_weights [''r2'', ''r1''] = [1, 1]" by (simp add: uniform_weights_def)
  from run_ctx_zero_enrichment[OF h1 h2 h3 h4] h4 show ?thesis
    unfolding g t a w by simp
qed



subsection \<open>The arguments of the kernel\<close>

text \<open>
  Claim C5. Every call of the statistical kernel that \<open>run_ctx\<close> makes, the AUC
  computation and the recovery-curve computation alike, passes \<open>total_regions\<close> of the
  database as the universe size, whatever the width of the matrix, and a weight of 1.0
  for every region of the signature.
\<close>

theorem kernel_universe_and_weights:
  assumes "run_ctx env self ctx_db [] = (tr, res)" and "c \<in> set tr"
    and "kernel_args c = Some (u, w)"
  shows "u = total_regions ctx_db
     \<and> (\<exists>r2db. resolve_regions_to_db env self ctx_db = Inr r2db
            \<and> w = replicate (length (signature_regions env self r2db)) 1)"
  using assms(1)
proof (cases rule: run_ctx_cases)
  case (some_enriched r2db dbr aucs)
  from run_enriched_kernel[OF some_enriched(5)] obtain cs where
    cs: "tr = [Call_calc_aucs dbr (total_regions ctx_db)
                     (uniform_weights (signature_regions env self r2db)) (auc_threshold self)] @ cs"
    "\<forall>c\<in>set cs. kernel_args c = None
        \<or> kernel_args c = Some (total_regions ctx_db, uniform_weights (signature_regions env self r2db))"
    by (auto simp: signature_regions_def)
  with assms(2,3) have "(u, w) = (total_regions ctx_db, uniform_weights (signature_regions env self r2db))"
    by auto
  with some_enriched(1) show ?thesis by (simp add: uniform_weights_def)
qed (use assms(2,3) in \<open>auto simp: uniform_weights_def\<close>)

theorem kernel_universe_and_weights_witness:
  "kernel_args (Call_recovery demo_dbr 100 [1, 1] 2 (5 / 1000) True) = Some (100, [1, 1])
   \<and> length (df_columns demo_dbr) = 2
   \<and> 100 = total_regions demo_db
   \<and> (\<exists>r2db. resolve_regions_to_db demo_env demo_self demo_db = Inr r2db
          \<and> [1, 1] = replicate (length (signature_regions demo_env demo_self r2db)) (1::real))"
proof -
  have k: "kernel_args (Call_recovery demo_dbr 100 [1, 1] 2 (5 / 1000) True) = Some (100, [1, 1])"
    by simp
  from kernel_universe_and_weights[OF demo_run _ k] k show ?thesis
    by (simp add: demo_dbr_def)
qed

subsection \<open>NES and the enriched set\<close>




subsection \<open>Recovery curves and the reference curve\<close>



subsection \<open>Motif hits\<close>



subsection \<open>The order of the table\<close>





subsection \<open>An empty region mapping\<close>






subsection \<open>Region sets of another type\<close>

text \<open>
  Claim C9, as amended. When \<open>region_sets\<close> is neither None, nor a dict, nor a single
  interval collection, \<open>load_db\<close> raises before it maps a region and before it loads any
  ranking: a ValueError, unless the database has no region key, or its first key holds the
  separator and another key does not (the IndexError of lines 109 to 111 comes first).
\<close>

theorem other_region_sets_raise:
  "fst (load_db env t2q db RS_other fo) = []
   \<and> (\<exists>e. snd (load_db env t2q db RS_other fo) = Inl e)
   \<and> (db_genes db \<noteq> [] \<and> (contains_sep (hd (db_genes db)) \<longrightarrow> list_all contains_sep (db_genes db))
        \<longrightarrow> load_db env t2q db RS_other fo = ([], Inl ValueError))"
proof -
  have a: "fst (load_db env t2q db RS_other fo) = []
     \<and> (\<exists>e. snd (load_db env t2q db RS_other fo) = Inl e)"
    by (cases "strip_prefix (db_genes db)") (auto simp: load_db_def)
  have b: "load_db env t2q db RS_other fo = ([], Inl ValueError)"
    if ne: "db_genes db \<noteq> []"
      and all: "contains_sep (hd (db_genes db)) \<longrightarrow> list_all contains_sep (db_genes db)"
  proof -
    have sp: "\<exists>rs. second_pieces ks = Inr rs" if "list_all contains_sep ks" for ks
      using that
    proof (induction ks)
      case (Cons k ks)
      then have "2 \<le> length (py_split k)" by (simp add: contains_sep_py_split)
      then obtain a b rest where "py_split k = a # b # rest"
        by (cases "py_split k"; cases "tl (py_split k)") auto
      with Cons show ?case by (auto simp: second_piece_def)
    qed simp
    from ne obtain g gs where g: "db_genes db = g # gs" by (cases "db_genes db") auto
    have "\<exists>x. strip_prefix (db_genes db) = Inr x"
    proof (cases "contains_sep g")
      case True
      with all g have "list_all contains_sep (db_genes db)" by simp
      from sp[OF this] True g show ?thesis by (auto simp: strip_prefix_def)
    next
      case False
      with g show ?thesis by (simp add: strip_prefix_def)
    qed
    then show ?thesis by (auto simp: load_db_def)
  qed
  from a b show ?thesis by blast
qed

theorem other_region_sets_raise_witness:
  "load_db demo_env demo_target_to_query demo_feather RS_other (4 / 10) = ([], Inl ValueError)"
proof -
  have "db_genes demo_feather \<noteq> []
      \<and> (contains_sep (hd (db_genes demo_feather)) \<longrightarrow> list_all contains_sep (db_genes demo_feather))"
    by (simp add: demo_feather_def)
  with other_region_sets_raise[of demo_env demo_target_to_query demo_feather "4 / 10"]
  show ?thesis by blast
qed


text \<open>
  Claim C9 as stated fails: the exception that line 122 raises is a ValueError, which is
  no TypeError.
\<close>

theorem type_error_counterexample:
  "snd (load_db demo_env demo_target_to_query (demo_feather\<lparr>db_genes := [''chr1:1-10'']\<rparr>)
          RS_other (4 / 10)) = Inl ValueError
   \<and> snd (load_db demo_env demo_target_to_query (demo_feather\<lparr>db_genes := [''chr1:1-10'']\<rparr>)
          RS_other (4 / 10)) \<noteq> Inl TypeError"
  by (simp add: load_db_def strip_prefix_def demo_feather_def)

subsection \<open>The prefix of the database keys\<close>





end
